theory Spec2Isabelle
  imports Complex_Main "HOL-Library.Word"
begin

section \<open>Data model\<close>

text \<open>
  The model covers the three source files: the request context with its handler chain
  (package makross), the body limit middleware (package blimit) and the access log
  middleware (package access).

  Go values are modelled as follows. A Go \<^verbatim>\<open>error\<close> return is an \<open>error option\<close>
  (\<open>None\<close> is \<^verbatim>\<open>nil\<close>); a run-time panic is the outcome \<open>Panics\<close>. \<^verbatim>\<open>int64\<close>
  is \<open>64 word\<close>, compared through \<open>sint\<close>. The cursor \<^verbatim>\<open>index\<close> and status codes
  are \<open>int\<close>: the only arithmetic on them is the increment of the cursor, which would
  need \<open>2 ^ 63\<close> calls to wrap. Strings and byte slices are \<open>string\<close>.
  Pointers to the request, the response and the reader objects are modelled by the
  value they point to, and the request and the response of a context are never
  \<^verbatim>\<open>nil\<close>: the transport layer supplies them. The pointer to the context that a \<^verbatim>\<open>limitedReader\<close> keeps is
  an address (\<open>nat\<close>), because the reader is itself stored inside the context's request.
\<close>

datatype error = ErrStatusRequestEntityTooLarge | ErrRendererNotRegistered | EOF | ErrOther string

datatype outcome = Returns "error option" | Panics

text \<open>Values of type \<^verbatim>\<open>interface{}\<close> kept in the store; \<open>VNil\<close> is \<^verbatim>\<open>nil\<close>.\<close>

datatype val = VNil | VInt int | VString string

text \<open>
  An underlying \<^verbatim>\<open>io.ReadCloser\<close>: any reader that answers each \<^verbatim>\<open>Read\<close> of a
  buffer of a given length with some bytes, an optional error and its next state, and
  that is drained after finitely many calls on every path.
\<close>

datatype stream = Drained | Stream "nat \<Rightarrow> string \<times> error option \<times> stream"

text \<open>
  The part of \<^verbatim>\<open>BodyLimitConfig\<close> that a \<^verbatim>\<open>limitedReader\<close> embeds and reads. The
  \<^verbatim>\<open>Skipper\<close> field is added by the extension \<open>BodyLimitConfig\<close> below: it is a function
  of the context, and the reader lives inside the context's request.
\<close>

record limit_config =
  Limit :: string
  limit :: "64 word"

text \<open>
  A request body is \<^verbatim>\<open>nil\<close>, a raw stream, or a \<^verbatim>\<open>limitedReader\<close> wrapped around
  another body.
\<close>

datatype body = NilReader | Raw stream | Limited limitedReader
and limitedReader =
  LimitedReader (BodyLimitConfig: limit_config) (reader: body) (read: "64 word") (ctx: "nat option")

text \<open>Arguments handed to a \<^verbatim>\<open>LogFunc\<close>.\<close>

datatype arg = AString string | AFloat real | AInt int

text \<open>
  Observable events, in the order they happen: the chain invoking the handler at a
  position, a read reaching a raw stream (with the number of bytes it obtained), the
  reader pool handing out and taking back a reader, an effect of a handler outside the
  context, and a call of a logging function.
\<close>

datatype event = Invoke nat | UnderlyingRead nat | PoolGet | PoolPut | Emitted string
  | Logged string "arg list"

text \<open>
  A handler is a Go function \<^verbatim>\<open>func(*Context) error\<close>. Its code is arbitrary; what the
  chain sees of it is the sequence of calls it makes on the context and the error it
  returns. A handler is therefore the tree of these calls, each with the continuation
  that receives the call's result. \<^verbatim>\<open>Reset\<close> and \<^verbatim>\<open>SetHandler\<close> are not among
  the calls: the first belongs to the transport layer between requests, the second
  rewrites the chain.
\<close>

datatype handler =
    Return "error option"
  | Panic
  | CallNext "error option \<Rightarrow> handler"
  | CallAbort handler
  | CallSet string val handler
  | CallGet string "val \<Rightarrow> handler"
  | CallString string "int list" "error option \<Rightarrow> handler"
  | CallRender string "int list" "error option \<Rightarrow> handler"
  | CallNoContent "int list" "error option \<Rightarrow> handler"
  | CallReadBody nat "string \<Rightarrow> error option \<Rightarrow> handler"
  | Emit string handler

record Request =
  Method :: string
  URL :: string
  Proto :: string
  Header :: "string \<rightharpoonup> string list"
  RemoteAddr :: string
  ContentLength :: "64 word"
  Body :: body

text \<open>
  Modelled from the spec: the response type is declared outside the three source files.
  It carries the status code, the headers and the bytes written so far.
\<close>

record Response =
  Status :: int
  Headers :: "string \<rightharpoonup> string"
  Written :: string

datatype kontext = Background | WithCancel kontext bool

text \<open>
  Modelled from the spec: \<^verbatim>\<open>DataWriter\<close> and \<^verbatim>\<open>DefaultDataWriter\<close> are declared outside
  the three source files. A writer turns a payload into bytes on the response and may fail.
\<close>

datatype DataWriter = DefaultDataWriter | Writer "Response \<Rightarrow> string \<Rightarrow> error option \<times> Response"

text \<open>
  Of \<^verbatim>\<open>Makross\<close> the context code reads the renderer only. A renderer maps a template
  name to the rendered bytes or fails.
\<close>

record Makross =
  renderer :: "(string \<Rightarrow> error + string) option"

record Context =
  Request :: Request
  Response :: Response
  ktx :: kontext
  makross :: "Makross option"
  pnames :: "string list"
  pvalues :: "string list"
  data :: "(string \<rightharpoonup> val) option"
  index :: int
  handlers :: "handler list"
  writer :: DataWriter

subsection \<open>Response and writer\<close>

text \<open>
  The status code and the header constants are declared outside the three source files;
  they have the values of \<^verbatim>\<open>net/http\<close>.
\<close>

definition StatusOK :: int where
  "StatusOK = 200"

definition HeaderContentType :: string where
  "HeaderContentType = ''Content-Type''"

definition MIMETextHTMLCharsetUTF8 :: string where
  "MIMETextHTMLCharsetUTF8 = ''text/html; charset=utf-8''"

definition MIMETextPlainCharsetUTF8 :: string where
  "MIMETextPlainCharsetUTF8 = ''text/plain; charset=utf-8''"

text \<open>
  Modelled from the spec: the methods of the response and the default writer are declared
  outside the three source files. \<^verbatim>\<open>WriteHeader\<close> sets the status code,
  \<^verbatim>\<open>Header().Set\<close> stores a header, and the default writer appends the bytes to what
  was written and does not fail; any other writer is a function of the response and the
  bytes.
\<close>

definition WriteHeader :: "Response \<Rightarrow> int \<Rightarrow> Response" where
  "WriteHeader res code = res\<lparr>Status := code\<rparr>"

definition Header_Set :: "Response \<Rightarrow> string \<Rightarrow> string \<Rightarrow> Response" where
  "Header_Set res k v = res\<lparr>Headers := (Headers res)(k \<mapsto> v)\<rparr>"

fun DataWriter_Write :: "DataWriter \<Rightarrow> Response \<Rightarrow> string \<Rightarrow> error option \<times> Response" where
  "DataWriter_Write DefaultDataWriter res d = (None, res\<lparr>Written := Written res @ d\<rparr>)"
| "DataWriter_Write (Writer f) res d = f res d"

subsection \<open>Reading a body: \<^verbatim>\<open>limitedReader.Read\<close>\<close>

text \<open>
  \<open>Read_body b len\<close> is \<^verbatim>\<open>b.Read(buf)\<close> for a buffer of length \<open>len\<close>: the bytes
  put into the buffer (their number is Go's \<^verbatim>\<open>n\<close>), the error, the body afterwards
  and the events. A call on the \<^verbatim>\<open>nil\<close> reader panics (\<open>None\<close>). \<open>Read\<close> is
  \<^verbatim>\<open>limitedReader.Read\<close>: it reads from the wrapped reader, adds \<^verbatim>\<open>int64(n)\<close>
  to \<^verbatim>\<open>r.read\<close> (wrapping as \<^verbatim>\<open>int64\<close> does) and compares with \<^verbatim>\<open>r.limit\<close>.
\<close>

fun Read_body :: "body \<Rightarrow> nat \<Rightarrow> ((string \<times> error option) \<times> body \<times> event list) option"
  and Read :: "limitedReader \<Rightarrow> nat \<Rightarrow> ((string \<times> error option) \<times> limitedReader \<times> event list) option"
where
  "Read_body NilReader len = None"
| "Read_body (Raw s) len =
     (case s of
        Drained \<Rightarrow> Some (([], Some EOF), Raw Drained, [UnderlyingRead 0])
      | Stream f \<Rightarrow> (case f len of (bs, e, s') \<Rightarrow> Some ((bs, e), Raw s', [UnderlyingRead (length bs)])))"
| "Read_body (Limited r) len =
     (case Read r len of None \<Rightarrow> None | Some (res, r', t) \<Rightarrow> Some (res, Limited r', t))"
| "Read (LimitedReader cfg rd n cx) len =
     (case Read_body rd len of
        None \<Rightarrow> None
      | Some ((bs, e), rd', t) \<Rightarrow>
          (let n' = n + of_nat (length bs) in
           if sint (limit cfg) < sint n'
           then Some ((bs, Some ErrStatusRequestEntityTooLarge), LimitedReader cfg rd' n' cx, t)
           else Some ((bs, e), LimitedReader cfg rd' n' cx, t)))"

text \<open>\<^verbatim>\<open>limitedReader.Reset\<close>: two assignments, to \<^verbatim>\<open>reader\<close> and to \<^verbatim>\<open>context\<close>.\<close>

definition limitedReader_Reset :: "limitedReader \<Rightarrow> body \<Rightarrow> nat option \<Rightarrow> limitedReader" where
  "limitedReader_Reset r rd cx = LimitedReader (BodyLimitConfig r) rd (read r) cx"

subsection \<open>Context\<close>

text \<open>
  The methods of the context, each as a function of the context before the call that
  returns the context after it. \<^verbatim>\<open>Get\<close> reads a \<^verbatim>\<open>nil\<close> map as an empty one;
  \<^verbatim>\<open>Set\<close> allocates the map when it is \<^verbatim>\<open>nil\<close>. \<open>status_code\<close> is the choice
  of the code that \<^verbatim>\<open>Render\<close>, \<^verbatim>\<open>String\<close> and \<^verbatim>\<open>NoContent\<close> each begin
  with. \<^verbatim>\<open>Render\<close> dereferences \<^verbatim>\<open>c.makross\<close>, which \<^verbatim>\<open>NewContext\<close> leaves
  \<^verbatim>\<open>nil\<close>: it panics then.
\<close>

definition Get :: "Context \<Rightarrow> string \<Rightarrow> val" where
  "Get c name = (case data c of None \<Rightarrow> VNil | Some m \<Rightarrow> (case m name of None \<Rightarrow> VNil | Some v \<Rightarrow> v))"

definition Set :: "Context \<Rightarrow> string \<Rightarrow> val \<Rightarrow> Context" where
  "Set c name v =
     (let m = (case data c of None \<Rightarrow> Map.empty | Some m \<Rightarrow> m)
      in c\<lparr>data := Some (m(name \<mapsto> v))\<rparr>)"

definition Abort :: "Context \<Rightarrow> Context" where
  "Abort c = c\<lparr>index := int (length (handlers c))\<rparr>"

definition Write :: "Context \<Rightarrow> string \<Rightarrow> error option \<times> Context" where
  "Write c d = (case DataWriter_Write (writer c) (Response c) d of (e, res) \<Rightarrow> (e, c\<lparr>Response := res\<rparr>))"

definition status_code :: "int list \<Rightarrow> int" where
  "status_code status = (if length status > 0 then status ! 0 else StatusOK)"

definition Render :: "Context \<Rightarrow> string \<Rightarrow> int list \<Rightarrow> outcome \<times> Context" where
  "Render c name status =
     (let code = status_code status in
      case makross c of
        None \<Rightarrow> (Panics, c)
      | Some m \<Rightarrow>
         (case renderer m of
            None \<Rightarrow> (Returns (Some ErrRendererNotRegistered), c)
          | Some rnd \<Rightarrow>
             (case rnd name of
                Inl err \<Rightarrow> (Returns (Some err), c)
              | Inr buf \<Rightarrow>
                 (let c1 = c\<lparr>Response := Header_Set (Response c) HeaderContentType MIMETextHTMLCharsetUTF8\<rparr>;
                      c2 = c1\<lparr>Response := WriteHeader (Response c1) code\<rparr>
                  in case Write c2 buf of (err, c3) \<Rightarrow> (Returns err, Abort c3)))))"

definition String :: "Context \<Rightarrow> string \<Rightarrow> int list \<Rightarrow> error option \<times> Context" where
  "String c s status =
     (let code = status_code status;
          c1 = c\<lparr>Response := Header_Set (Response c) HeaderContentType MIMETextPlainCharsetUTF8\<rparr>;
          c2 = c1\<lparr>Response := WriteHeader (Response c1) code\<rparr>
      in case Write c2 s of (err, c3) \<Rightarrow> (err, Abort c3))"

definition NoContent :: "Context \<Rightarrow> int list \<Rightarrow> error option \<times> Context" where
  "NoContent c status =
     (let code = status_code status
      in (None, c\<lparr>Response := WriteHeader (Response c) code\<rparr>))"

definition Reset :: "Context \<Rightarrow> Response \<Rightarrow> Request \<Rightarrow> Context" where
  "Reset c response request =
     c\<lparr>Response := response, Request := request, ktx := Background, data := None,
       index := - 1, writer := DefaultDataWriter\<rparr>"

subsection \<open>Chain\<close>

text \<open>
  A call returns its outcome, the context it leaves and the events it caused.
  \<open>run p c\<close> executes the code \<open>p\<close> of a handler on the context \<open>c\<close>. \<open>loop c\<close>
  is the \<^verbatim>\<open>for\<close> loop of \<^verbatim>\<open>Next\<close>, entered with the cursor already incremented:
  while the cursor is below \<^verbatim>\<open>len(c.handlers)\<close> it calls the handler at the cursor,
  returns at once what the handler returned when that is not \<^verbatim>\<open>nil\<close>, and increments
  the cursor otherwise. Indexing \<^verbatim>\<open>c.handlers\<close> with a negative cursor panics. The
  source reads \<^verbatim>\<open>len(c.handlers)\<close> once, before the loop; no call in a handler
  changes the handlers, so reading it at each test is the same.
\<close>

type_synonym result = "outcome \<times> Context \<times> event list"

definition after :: "event list \<Rightarrow> result \<Rightarrow> result" where
  "after t r = (case r of (out, c, t') \<Rightarrow> (out, c, t @ t'))"

function (sequential) run :: "handler \<Rightarrow> Context \<Rightarrow> result"
  and loop :: "Context \<Rightarrow> result" where
  "run (Return e) c = (Returns e, c, [])"
| "run Panic c = (Panics, c, [])"
| "run (CallNext k) c =
     (case loop (c\<lparr>index := index c + 1\<rparr>) of
        (Returns e, c', t) \<Rightarrow> after t (run (k e) c')
      | (Panics, c', t) \<Rightarrow> (Panics, c', t))"
| "run (CallAbort p) c = run p (Abort c)"
| "run (CallSet name v p) c = run p (Set c name v)"
| "run (CallGet name k) c = run (k (Get c name)) c"
| "run (CallString s status k) c = (case String c s status of (e, c') \<Rightarrow> run (k e) c')"
| "run (CallRender name status k) c =
     (case Render c name status of
        (Returns e, c') \<Rightarrow> run (k e) c'
      | (Panics, c') \<Rightarrow> (Panics, c', []))"
| "run (CallNoContent status k) c = (case NoContent c status of (e, c') \<Rightarrow> run (k e) c')"
| "run (CallReadBody len k) c =
     (case Read_body (Body (Request c)) len of
        None \<Rightarrow> (Panics, c, [])
      | Some ((bs, e), b', t) \<Rightarrow> after t (run (k bs e) (c\<lparr>Request := (Request c)\<lparr>Body := b'\<rparr>\<rparr>)))"
| "run (Emit s p) c = after [Emitted s] (run p c)"
| "loop c =
     (if index c < int (length (handlers c)) then
        if index c < 0 then (Panics, c, [])
        else
          case run (handlers c ! nat (index c)) c of
            (Returns None, c', t) \<Rightarrow>
              after (Invoke (nat (index c)) # t) (loop (c'\<lparr>index := index c' + 1\<rparr>))
          | (out, c', t) \<Rightarrow> (out, c', Invoke (nat (index c)) # t)
      else (Returns None, c, []))"
  by pat_completeness auto

text \<open>
  Termination. A call of \<^verbatim>\<open>Next\<close> from within a handler runs the loop again, on the
  same cursor. The recursion ends because no call raises the number of handlers still
  ahead of the cursor, \<open>pot\<close>, and each loop step lowers it; between two loop steps
  the code of a handler only gets shorter (\<open>sub\<close>). \<open>shrinks\<close> is what the proof
  needs to know of a result, and \<open>rl_order\<close> is the order in which the calls descend.
\<close>

definition pot :: "Context \<Rightarrow> nat" where
  "pot c = nat (int (length (handlers c)) - index c)"

inductive_set sub :: "(handler \<times> handler) set" where
  "(k e, CallNext k) \<in> sub"
| "(p, CallAbort p) \<in> sub"
| "(p, CallSet name v p) \<in> sub"
| "(k v, CallGet name k) \<in> sub"
| "(k e, CallString s status k) \<in> sub"
| "(k e, CallRender name status k) \<in> sub"
| "(k e, CallNoContent status k) \<in> sub"
| "(k bs e, CallReadBody len k) \<in> sub"
| "(p, Emit s p) \<in> sub"

definition shrinks :: "Context \<Rightarrow> result \<Rightarrow> bool" where
  "shrinks c r = (handlers (fst (snd r)) = handlers c \<and> pot (fst (snd r)) \<le> pot c)"

definition rl_measure :: "handler \<times> Context + Context \<Rightarrow> nat \<times> nat \<times> handler" where
  "rl_measure x =
     (case x of
        Inl (p, c) \<Rightarrow> (pot c, 1, p)
      | Inr c \<Rightarrow> (pot c, if index c < int (length (handlers c)) then 2 else 0, Panic))"

definition rl_order :: "((handler \<times> Context + Context) \<times> (handler \<times> Context + Context)) set" where
  "rl_order = inv_image (less_than <*lex*> less_than <*lex*> sub) rl_measure"

text \<open>
  \<^verbatim>\<open>Context.Next\<close>: the increment of the cursor, then the loop. The equation of
  \<open>run\<close> for \<open>CallNext\<close> above is this body, written out.
\<close>

definition Next :: "Context \<Rightarrow> result" where
  "Next c = loop (c\<lparr>index := index c + 1\<rparr>)"

text \<open>\<^verbatim>\<open>NewContext\<close>: a context with the given handlers, reset.\<close>

definition NewContext :: "Response \<Rightarrow> Request \<Rightarrow> handler list \<Rightarrow> Context" where
  "NewContext res req hs =
     Reset \<lparr>Request = req, Response = res, ktx = Background, makross = None, pnames = [],
            pvalues = [], data = None, index = 0, handlers = hs, writer = DefaultDataWriter\<rparr>
       res req"

text \<open>
  \<^verbatim>\<open>Context.Param\<close>: the value at the position of the first route parameter name that
  equals \<open>name\<close>, or the empty string when there is none. Reading \<^verbatim>\<open>c.pvalues\<close>
  beyond its end panics (\<open>None\<close>). \<open>Param_from i\<close> is the rest of the loop from
  position \<open>i\<close> on.
\<close>

fun Param_from :: "nat \<Rightarrow> string list \<Rightarrow> string list \<Rightarrow> string \<Rightarrow> string option" where
  "Param_from i [] pvs name = Some []"
| "Param_from i (n # ns) pvs name =
     (if n = name then (if i < length pvs then Some (pvs ! i) else None)
      else Param_from (Suc i) ns pvs name)"

definition Param :: "Context \<Rightarrow> string \<Rightarrow> string option" where
  "Param c name = Param_from 0 (pnames c) (pvalues c) name"

text \<open>The positions of the handlers invoked in a trace, in order.\<close>

fun invoked :: "event list \<Rightarrow> nat list" where
  "invoked [] = []"
| "invoked (Invoke i # t) = i # invoked t"
| "invoked (_ # t) = invoked t"

definition cancelled :: "kontext \<Rightarrow> bool" where
  "cancelled k = (case k of Background \<Rightarrow> False | WithCancel _ b \<Rightarrow> b)"

subsection \<open>Client address: \<^verbatim>\<open>Context.RealIP\<close> and \<^verbatim>\<open>access.GetClientIP\<close>\<close>

text \<open>
  \<^verbatim>\<open>http.Header.Get\<close>: the first value stored under the key, or the empty string. The
  header names are constants declared outside the three source files.
\<close>

definition Header_Get :: "(string \<rightharpoonup> string list) \<Rightarrow> string \<Rightarrow> string" where
  "Header_Get h k = (case h k of None \<Rightarrow> [] | Some [] \<Rightarrow> [] | Some (v # _) \<Rightarrow> v)"

definition HeaderXForwardedFor :: string where
  "HeaderXForwardedFor = ''X-Forwarded-For''"

definition HeaderXRealIP :: string where
  "HeaderXRealIP = ''X-Real-IP''"

text \<open>
  \<^verbatim>\<open>strings.LastIndex(s, ":")\<close> and \<^verbatim>\<open>strings.IndexByte\<close> for a one-byte separator:
  the position of its last (first) occurrence, or \<open>-1\<close>.
\<close>

fun LastIndex :: "string \<Rightarrow> char \<Rightarrow> int" where
  "LastIndex [] ch = - 1"
| "LastIndex (x # xs) ch =
     (let r = LastIndex xs ch in if r \<noteq> - 1 then r + 1 else if x = ch then 0 else - 1)"

fun IndexByte :: "string \<Rightarrow> char \<Rightarrow> int" where
  "IndexByte [] ch = - 1"
| "IndexByte (x # xs) ch =
     (if x = ch then 0 else let r = IndexByte xs ch in if r = - 1 then - 1 else r + 1)"

text \<open>
  \<^verbatim>\<open>net.SplitHostPort\<close> of the Go standard library, which \<^verbatim>\<open>RealIP\<close> calls: host,
  port and error; on an error host and port are empty. \<^verbatim>\<open>RealIP\<close> takes the function
  as a parameter, and this definition is the instance used in examples.
\<close>

definition addrErr :: "string \<Rightarrow> string \<times> string \<times> error option" where
  "addrErr why = ([], [], Some (ErrOther why))"

definition SplitHostPort :: "string \<Rightarrow> string \<times> string \<times> error option" where
  "SplitHostPort hostport =
     (let i = LastIndex hostport CHR '':'';
          n = int (length hostport);
          checks = (\<lambda>host j k.
            if IndexByte (drop (nat j) hostport) CHR ''['' \<ge> 0 then addrErr ''unexpected [ in address''
            else if IndexByte (drop (nat k) hostport) CHR '']'' \<ge> 0 then addrErr ''unexpected ] in address''
            else (host, drop (nat (i + 1)) hostport, None))
      in
      if i < 0 then addrErr ''missing port in address''
      else if hostport ! 0 = CHR ''['' then
        (let e = IndexByte hostport CHR '']'' in
         if e < 0 then addrErr ''missing ] in address''
         else if e + 1 = n then addrErr ''missing port in address''
         else if e + 1 = i then checks (take (nat e - 1) (drop 1 hostport)) 1 (e + 1)
         else if hostport ! nat (e + 1) = CHR '':'' then addrErr ''too many colons in address''
         else addrErr ''missing port in address'')
      else
        (let host = take (nat i) hostport in
         if IndexByte host CHR '':'' \<ge> 0 then addrErr ''too many colons in address''
         else checks host 0 0))"

definition RealIP :: "(string \<Rightarrow> string \<times> string \<times> error option) \<Rightarrow> Context \<Rightarrow> string" where
  "RealIP split c =
     (let ra = RemoteAddr (Request c);
          ip = Header_Get (Header (Request c)) HeaderXForwardedFor
      in if length ip > 0 then ip
         else
           let ip = Header_Get (Header (Request c)) HeaderXRealIP
           in if length ip > 0 then ip
              else fst (split ra))"

definition GetClientIP :: "Request \<Rightarrow> string" where
  "GetClientIP req =
     (let ip = Header_Get (Header req) ''X-Real-IP'';
          ip = (if ip = [] then
                  (let ip = Header_Get (Header req) ''X-Forwarded-For''
                   in if ip = [] then RemoteAddr req else ip)
                else ip);
          colon = LastIndex ip CHR '':''
      in if colon \<noteq> - 1 then take (nat colon) ip else ip)"

subsection \<open>Package blimit\<close>

text \<open>
  \<^verbatim>\<open>BodyLimitConfig\<close> with its \<^verbatim>\<open>Skipper\<close>; a \<^verbatim>\<open>nil\<close> skipper is \<open>None\<close>.
  Modelled from the spec: \<^verbatim>\<open>skipper.DefaultSkipper\<close> is declared outside the three
  source files; it skips no request.
\<close>

record BodyLimitConfig = limit_config +
  Skipper :: "(Context \<Rightarrow> bool) option"

definition DefaultSkipper :: "Context \<Rightarrow> bool" where
  "DefaultSkipper c = False"

definition DefaultBodyLimitConfig :: BodyLimitConfig where
  "DefaultBodyLimitConfig = \<lparr>Limit = [], limit = 0, Skipper = Some DefaultSkipper\<rparr>"

text \<open>
  \<^verbatim>\<open>sync.Pool\<close> as \<^verbatim>\<open>limitedReaderPool\<close> builds it: the idle readers, and the reader
  that \<^verbatim>\<open>New\<close> makes (the zero \<^verbatim>\<open>limitedReader\<close> with the configuration). \<^verbatim>\<open>Get\<close>
  hands out an idle reader when there is one, and a new one otherwise.
\<close>

record Pool =
  New :: limitedReader
  idle :: "limitedReader list"

definition limitedReaderPool :: "BodyLimitConfig \<Rightarrow> Pool" where
  "limitedReaderPool c =
     \<lparr>New = LimitedReader (limit_config.truncate c) NilReader 0 None, idle = []\<rparr>"

definition Pool_Get :: "Pool \<Rightarrow> limitedReader \<times> Pool" where
  "Pool_Get p = (case idle p of [] \<Rightarrow> (New p, p) | r # rs \<Rightarrow> (r, p\<lparr>idle := rs\<rparr>))"

definition Pool_Put :: "Pool \<Rightarrow> limitedReader \<Rightarrow> Pool" where
  "Pool_Put p r = p\<lparr>idle := r # idle p\<rparr>"

text \<open>
  The handler that \<^verbatim>\<open>BodyLimitWithConfig\<close> returns, for the configuration and the pool
  it closes over. \<open>cp\<close> is the address of the context. The deferred \<^verbatim>\<open>pool.Put(r)\<close>
  runs on every way out of the last branch, a panic included; it puts back the reader
  object as the downstream handlers left it, which is the body of the request.
\<close>

definition BodyLimit_handler ::
  "BodyLimitConfig \<Rightarrow> nat \<Rightarrow> Context \<Rightarrow> Pool \<Rightarrow> result \<times> Pool" where
  "BodyLimit_handler config cp c pool =
     (case Skipper config of
        None \<Rightarrow> ((Panics, c, []), pool)
      | Some skip \<Rightarrow>
          if skip c then (Next c, pool)
          else
            let req = Request c in
            if sint (limit config) < sint (ContentLength req)
            then ((Returns (Some ErrStatusRequestEntityTooLarge), c, []), pool)
            else
              (case Pool_Get pool of (r, pool1) \<Rightarrow>
                 let r1 = limitedReader_Reset r (Body req) (Some cp);
                     c1 = c\<lparr>Request := req\<lparr>Body := Limited r1\<rparr>\<rparr>
                 in case Next c1 of (out, c2, t) \<Rightarrow>
                      let r2 = (case Body (Request c2) of Limited r' \<Rightarrow> r' | _ \<Rightarrow> r1)
                      in ((out, c2, PoolGet # t @ [PoolPut]), Pool_Put pool1 r2)))"

text \<open>
  \<^verbatim>\<open>BodyLimitWithConfig\<close>: the default skipper, the parsed limit (the parser,
  \<^verbatim>\<open>lbytes.Parse\<close>, is a parameter; a parse error panics, which is \<open>None\<close>), the pool.
  The result is what the returned closure holds. \<^verbatim>\<open>BodyLimit\<close> is the same on the
  default configuration with the given limit string.
\<close>

definition BodyLimitWithConfig ::
  "(string \<Rightarrow> error + 64 word) \<Rightarrow> BodyLimitConfig \<Rightarrow> (BodyLimitConfig \<times> Pool) option" where
  "BodyLimitWithConfig parse config =
     (let config1 = (if Skipper config = None
                     then config\<lparr>Skipper := Skipper DefaultBodyLimitConfig\<rparr> else config)
      in case parse (Limit config1) of
           Inl err \<Rightarrow> None
         | Inr l \<Rightarrow> (let config2 = config1\<lparr>limit := l\<rparr> in Some (config2, limitedReaderPool config2)))"

definition BodyLimit :: "(string \<Rightarrow> error + 64 word) \<Rightarrow> string \<Rightarrow> (BodyLimitConfig \<times> Pool) option" where
  "BodyLimit parse s = BodyLimitWithConfig parse (DefaultBodyLimitConfig\<lparr>Limit := s\<rparr>)"

subsection \<open>Package access\<close>

datatype LogResponseWriter =
  LogResponseWriter (rw_Response: Response) (rw_Status: int) (rw_BytesWritten: "64 word")

text \<open>
  A logging callback is known by the events its call produces. \<^verbatim>\<open>time.Now()\<close> is read
  twice; the two readings, in nanoseconds, are the parameters \<open>startTime\<close> and
  \<open>endTime\<close>. The elapsed milliseconds are their difference over \<open>10 ^ 6\<close> as a real
  number; the rounding of \<^verbatim>\<open>float64\<close> is not modelled. \<^verbatim>\<open>req\<close> is a pointer, so the
  callback sees the request as the downstream handlers left it. There is no deferred
  call: when \<^verbatim>\<open>Next\<close> panics the callback is not reached.
\<close>

type_synonym LogWriterFunc = "Request \<Rightarrow> LogResponseWriter \<Rightarrow> real \<Rightarrow> event list"

type_synonym LogFunc = "string \<Rightarrow> arg list \<Rightarrow> event list"

definition CustomLogger :: "LogWriterFunc \<Rightarrow> int \<Rightarrow> int \<Rightarrow> Context \<Rightarrow> result" where
  "CustomLogger loggerFunc startTime endTime c =
     (case Next c of
        (Panics, c', t) \<Rightarrow> (Panics, c', t)
      | (Returns err, c', t) \<Rightarrow>
          (let req = Request c';
               rw = LogResponseWriter (Response c') (Status (Response c')) 0;
               elapsed = real_of_int (endTime - startTime) / 1000000
           in (Returns err, c', t @ loggerFunc req rw elapsed)))"

definition Logger :: "LogFunc \<Rightarrow> int \<Rightarrow> int \<Rightarrow> Context \<Rightarrow> result" where
  "Logger logf =
     CustomLogger (\<lambda>req rw elapsed.
       let clientIP = GetClientIP req;
           requestLine = Method req @ '' '' @ URL req @ '' '' @ Proto req
       in logf ''[%s] [%.3fms] %s %d %d''
            [AString clientIP, AFloat elapsed, AString requestLine, AInt (rw_Status rw),
             AInt (sint (rw_BytesWritten rw))])"

subsection \<open>Reading a body in several calls\<close>

text \<open>
  A caller that reads with buffers of the given lengths, one call after the other, and
  collects the results: \<open>Read_all\<close> through a \<^verbatim>\<open>limitedReader\<close>, \<open>Read_body_all\<close>
  from a body directly. \<open>total\<close> is the number of bytes in a list of results.
  \<open>within_budget L count\<close> follows the specification of the reader with ceiling \<open>L\<close>:
  each result keeps its bytes, and carries the too-large error as soon as the running
  count is above \<open>L\<close>.
\<close>

fun Read_all :: "limitedReader \<Rightarrow> nat list \<Rightarrow> ((string \<times> error option) list \<times> limitedReader) option" where
  "Read_all r [] = Some ([], r)"
| "Read_all r (len # lens) =
     (case Read r len of
        None \<Rightarrow> None
      | Some (res, r', t) \<Rightarrow>
          (case Read_all r' lens of None \<Rightarrow> None | Some (ress, r'') \<Rightarrow> Some (res # ress, r'')))"

fun Read_body_all :: "body \<Rightarrow> nat list \<Rightarrow> ((string \<times> error option) list \<times> body) option" where
  "Read_body_all b [] = Some ([], b)"
| "Read_body_all b (len # lens) =
     (case Read_body b len of
        None \<Rightarrow> None
      | Some (res, b', t) \<Rightarrow>
          (case Read_body_all b' lens of None \<Rightarrow> None | Some (ress, b'') \<Rightarrow> Some (res # ress, b'')))"

fun within_budget :: "int \<Rightarrow> int \<Rightarrow> (string \<times> error option) list \<Rightarrow> (string \<times> error option) list" where
  "within_budget L count [] = []"
| "within_budget L count ((bs, e) # rest) =
     (bs, if L < count + int (length bs) then Some ErrStatusRequestEntityTooLarge else e)
       # within_budget L (count + int (length bs)) rest"

definition total :: "(string \<times> error option) list \<Rightarrow> int" where
  "total ress = (\<Sum>(bs, e) \<leftarrow> ress. int (length bs))"

subsection \<open>Handlers that leave the cursor alone\<close>


fun in_order :: "nat \<Rightarrow> handler list \<Rightarrow> Context \<Rightarrow> result" where
  "in_order k [] c = (Returns None, c\<lparr>index := int k\<rparr>, [])"
| "in_order k (h # hs) c =
     (case run h (c\<lparr>index := int k\<rparr>) of
        (Returns None, c', t) \<Rightarrow> after (Invoke k # t) (in_order (Suc k) hs c')
      | (out, c', t) \<Rightarrow> (out, c', Invoke k # t))"

subsection \<open>The invariant of the chain\<close>

text \<open>
  The invariant of \<open>run\<close> and \<open>loop\<close>: \<open>ord lo hs r\<close> says of a result \<open>r\<close> that the
  handlers are still \<open>hs\<close>, that the positions invoked are strictly increasing, that each
  lies from \<open>lo\<close> on, below the length of \<open>hs\<close> and not above the final cursor, and
  that the final cursor is at least \<open>lo - 1\<close> or past the end.
\<close>

definition ord :: "int \<Rightarrow> handler list \<Rightarrow> result \<Rightarrow> bool" where
  "ord lo hs r =
     (case r of (out, c', t) \<Rightarrow>
        handlers c' = hs \<and> sorted_wrt (<) (invoked t) \<and>
        (\<forall>j\<in>set (invoked t). lo \<le> int j \<and> int j \<le> index c' \<and> j < length hs) \<and>
        (lo - 1 \<le> index c' \<or> int (length hs) \<le> index c'))"

subsection \<open>Example values\<close>

text \<open>
  Concrete requests and contexts on which the properties below are evaluated: a plain
  \<^verbatim>\<open>GET\<close>, a five-byte \<^verbatim>\<open>POST\<close> whose only handler reads the body once, a body
  limit of eight bytes, and a request that arrives through a proxy.
\<close>

definition req0 :: Request where
  "req0 = \<lparr>Method = ''GET'', URL = ''/'', Proto = ''HTTP/1.1'', Header = Map.empty,
            RemoteAddr = ''1.2.3.4:5678'', ContentLength = 0, Body = Raw Drained\<rparr>"

definition res0 :: Response where
  "res0 = \<lparr>Status = 0, Headers = Map.empty, Written = []\<rparr>"

definition hello :: body where
  "hello = Raw (Stream (\<lambda>n. (''hello'', None, Drained)))"

definition config8 :: BodyLimitConfig where
  "config8 = \<lparr>Limit = ''8'', limit = 8, Skipper = Some DefaultSkipper\<rparr>"

definition post5 :: Context where
  "post5 = NewContext res0 (req0\<lparr>Method := ''POST'', ContentLength := 5, Body := hello\<rparr>)
             [CallReadBody 16 (\<lambda>bs e. Return e)]"

definition proxied :: Request where
  "proxied = req0\<lparr>Header := [''X-Real-IP'' \<mapsto> [''10.0.0.1:8080''],
                               ''X-Forwarded-For'' \<mapsto> [''10.9.9.9'']]\<rparr>"


definition relayed :: Request where
  "relayed = req0\<lparr>Header := [''X-Real-IP'' \<mapsto> [''10.0.0.1''],
                               ''X-Forwarded-For'' \<mapsto> [''10.9.9.9'']]\<rparr>"

definition forwarded :: Context where
  "forwarded = NewContext res0 relayed []"

definition fronted :: Context where
  "fronted = NewContext res0 (req0\<lparr>Header := [''X-Real-IP'' \<mapsto> [''10.0.0.1'']]\<rparr>) []"

definition bare :: Context where
  "bare = (NewContext res0 req0 [Return None])\<lparr>makross := Some \<lparr>renderer = None\<rparr>\<rparr>"

definition page :: "string \<Rightarrow> error + string" where
  "page name = (if name = ''index'' then Inr ''<p>hi</p>'' else Inl (ErrOther ''no such template''))"

definition site :: Context where
  "site = (NewContext res0 req0 [Return None, Return None])\<lparr>makross := Some \<lparr>renderer = Some page\<rparr>\<rparr>"

definition chunks :: body where
  "chunks = Raw (Stream (\<lambda>n. (''abc'', None,
                 Stream (\<lambda>n. (''defgh'', None,
                   Stream (\<lambda>n. (''ij'', None, Drained)))))))"

definition post9 :: Context where
  "post9 = NewContext res0 (req0\<lparr>Method := ''POST'', ContentLength := 9, Body := hello\<rparr>)
             [CallReadBody 16 (\<lambda>bs e. Return e)]"

definition printf :: LogFunc where
  "printf format args = [Logged format args]"

definition failing :: Context where
  "failing = NewContext res0 req0 [Emit ''a'' (Return None), Return (Some (ErrOther ''boom'')), Emit ''c'' (Return None)]"


definition routed :: Context where
  "routed = (NewContext res0 req0 [Emit ''profile'' (Return None)])
              \<lparr>pnames := [''id''], pvalues := [''7'']\<rparr>"


section \<open>Termination of the chain\<close>

lemma wf_sub: "wf sub"
proof (rule wfUNIVI)
  fix P :: "handler \<Rightarrow> bool" and x
  assume H: "\<forall>x. (\<forall>y. (y, x) \<in> sub \<longrightarrow> P y) \<longrightarrow> P x"
  have step: "\<And>x. (\<And>y. (y, x) \<in> sub \<Longrightarrow> P y) \<Longrightarrow> P x"
    using H by blast
  show "P x"
    by (induction x; rule step; erule sub.cases; auto)
qed

lemma shrinks_after [simp]: "shrinks c (after t r) = shrinks c r"
  by (simp add: shrinks_def after_def split: prod.splits)

lemma shrinks_triple [simp]: "shrinks c (out, c', t) = (handlers c' = handlers c \<and> pot c' \<le> pot c)"
  by (simp add: shrinks_def)

lemma shrinks_step:
  "handlers c' = handlers c \<Longrightarrow> pot c' \<le> pot c \<Longrightarrow> shrinks c' r \<Longrightarrow> shrinks c r"
  by (simp add: shrinks_def)

lemma pot_incr: "pot (c\<lparr>index := index c + 1\<rparr>) \<le> pot c"
  by (simp add: pot_def)

lemma pot_Abort [simp]: "pot (Abort c) = 0"
  by (simp add: pot_def Abort_def)

lemma handlers_Abort [simp]: "handlers (Abort c) = handlers c"
  by (simp add: Abort_def)

lemma handlers_Set [simp]: "handlers (Set c name v) = handlers c"
  by (simp add: Set_def Let_def)

lemma index_Set [simp]: "index (Set c name v) = index c"
  by (simp add: Set_def Let_def)

lemma pot_Set [simp]: "pot (Set c name v) = pot c"
  by (simp add: pot_def)

lemma handlers_Write: "Write c d = (e, c') \<Longrightarrow> handlers c' = handlers c"
  by (auto simp: Write_def split: prod.splits)

lemma index_Write: "Write c d = (e, c') \<Longrightarrow> index c' = index c"
  by (auto simp: Write_def split: prod.splits)

lemma String_shrinks: "String c s status = (e, c') \<Longrightarrow> handlers c' = handlers c \<and> pot c' \<le> pot c"
  by (auto simp: String_def Let_def split: prod.splits dest: handlers_Write)

lemma Render_shrinks: "Render c name status = (out, c') \<Longrightarrow> handlers c' = handlers c \<and> pot c' \<le> pot c"
  by (auto simp: Render_def Let_def split: prod.splits option.splits sum.splits dest: handlers_Write)

lemma NoContent_shrinks: "NoContent c status = (e, c') \<Longrightarrow> handlers c' = handlers c \<and> pot c' \<le> pot c"
  by (auto simp: NoContent_def Let_def pot_def)

lemma run_loop_shrinks:
  "run_loop_dom (Inl (p, c)) \<Longrightarrow> shrinks c (run p c)"
  "run_loop_dom (Inr c) \<Longrightarrow> shrinks c (loop c)"
proof (induction p c and c rule: run_loop.pinduct)
  case (3 k c)
  let ?c1 = "c\<lparr>index := index c + 1\<rparr>"
  have s1: "shrinks ?c1 (loop ?c1)" by (rule 3)
  obtain out c' t where l: "loop ?c1 = (out, c', t)" by (cases "loop ?c1") auto
  with s1 have hc: "handlers c' = handlers c" "pot c' \<le> pot c"
    using pot_incr[of c] by auto
  show ?case
  proof (cases out)
    case (Returns e)
    with 3(3)[OF l[unfolded Returns, symmetric]] l hc show ?thesis
      by (auto simp: run.psimps(3)[OF 3(1)] Returns intro: shrinks_step)
  next
    case Panics
    with l hc show ?thesis by (simp add: run.psimps(3)[OF 3(1)])
  qed
next
  case (4 p c)
  then show ?case by (simp add: run.psimps shrinks_def)
next
  case (5 name v p c)
  then show ?case by (simp add: run.psimps shrinks_def)
next
  case (10 len k c)
  show ?case
  proof (cases "Read_body (Body (Request c)) len")
    case None
    then show ?thesis by (simp add: run.psimps(10)[OF 10(1)])
  next
    case (Some x)
    obtain bs e b' t where x: "x = ((bs, e), b', t)" by (cases x) auto
    let ?c1 = "c\<lparr>Request := (Request c)\<lparr>Body := b'\<rparr>\<rparr>"
    have "shrinks ?c1 (run (k bs e) ?c1)" using 10(2) Some x by simp
    then have "shrinks c (run (k bs e) ?c1)"
      by (rule shrinks_step[rotated 2]) (simp_all add: pot_def)
    then show ?thesis using Some x by (simp add: run.psimps(10)[OF 10(1)])
  qed
next
  case (12 c)
  show ?case
  proof (cases "index c < int (length (handlers c)) \<and> \<not> index c < 0")
    case False
    then show ?thesis by (auto simp: loop.psimps[OF 12(1)])
  next
    case True
    let ?h = "handlers c ! nat (index c)"
    have s1: "shrinks c (run ?h c)" using 12(2) True by simp
    obtain out c' t where r: "run ?h c = (out, c', t)" by (cases "run ?h c") auto
    with s1 have hc: "handlers c' = handlers c" "pot c' \<le> pot c" by auto
    show ?thesis
    proof (cases "out = Returns None")
      case False
      with r hc True show ?thesis
        by (auto simp: loop.psimps[OF 12(1)] split: outcome.splits option.splits)
    next
      case T2: True
      have "shrinks (c'\<lparr>index := index c' + 1\<rparr>) (loop (c'\<lparr>index := index c' + 1\<rparr>))"
        using 12(3) True r T2 by auto
      then have "shrinks c (loop (c'\<lparr>index := index c' + 1\<rparr>))"
        using hc pot_incr[of c'] by (simp add: shrinks_def)
      with r T2 True show ?thesis
        by (simp add: loop.psimps[OF 12(1)])
    qed
  qed
qed (auto simp: run.psimps split: prod.splits outcome.splits option.splits
      dest: String_shrinks Render_shrinks NoContent_shrinks intro: shrinks_step)

lemma wf_rl_order: "wf rl_order"
  unfolding rl_order_def by (intro wf_inv_image wf_lex_prod wf_less_than wf_sub)

lemma rl_run_run: "pot c' \<le> pot c \<Longrightarrow> (p', p) \<in> sub \<Longrightarrow> (Inl (p', c'), Inl (p, c)) \<in> rl_order"
  by (auto simp: rl_order_def rl_measure_def)

lemma rl_run_loop: "(Inr (c\<lparr>index := index c + 1\<rparr>), Inl (p, c)) \<in> rl_order"
  by (auto simp: rl_order_def rl_measure_def pot_def)

lemma rl_loop_run: "index c < int (length (handlers c)) \<Longrightarrow> (Inl (h, c), Inr c) \<in> rl_order"
  by (auto simp: rl_order_def rl_measure_def)

lemma rl_loop_loop:
  "index c < int (length (handlers c)) \<Longrightarrow> pot c' \<le> pot c \<Longrightarrow> handlers c' = handlers c \<Longrightarrow>
   (Inr (c'\<lparr>index := index c' + 1\<rparr>), Inr c) \<in> rl_order"
  by (auto simp: rl_order_def rl_measure_def pot_def)

termination run
proof (relation rl_order)
  show "wf rl_order" by (rule wf_rl_order)
next
  fix k c
  show "(Inr (c\<lparr>index := index c + 1\<rparr>), Inl (CallNext k, c)) \<in> rl_order"
    by (rule rl_run_loop)
next
  fix k c x y x1 xa ya
  assume "(x, y) = loop (c\<lparr>index := index c + 1\<rparr>)" "(xa, ya) = y"
    and "run_loop_dom (Inr (c\<lparr>index := index c + 1\<rparr>))"
  then have "pot xa \<le> pot (c\<lparr>index := index c + 1\<rparr>)"
    using run_loop_shrinks(2)[of "c\<lparr>index := index c + 1\<rparr>"] by (auto simp: shrinks_def dest: sym)
  then have "pot xa \<le> pot c" using pot_incr[of c] by simp
  then show "(Inl (k x1, xa), Inl (CallNext k, c)) \<in> rl_order"
    by (rule rl_run_run) (rule sub.intros)
next
  fix c x y xa ya
  assume a: "index c < int (length (handlers c))" "\<not> index c < 0"
    "(x, y) = run (handlers c ! nat (index c)) c" "(xa, ya) = y"
    "run_loop_dom (Inl (handlers c ! nat (index c), c))"
  then have "shrinks c (run (handlers c ! nat (index c)) c)"
    using run_loop_shrinks(1) by blast
  with a(3,4) have "pot xa \<le> pot c" "handlers xa = handlers c"
    by (auto simp: shrinks_def dest: sym)
  with a(1) show "(Inr (xa\<lparr>index := index xa + 1\<rparr>), Inr c) \<in> rl_order"
    by (rule rl_loop_loop)
qed (auto intro!: rl_run_run rl_loop_run sub.intros
      dest: String_shrinks[OF sym] Render_shrinks[OF sym] NoContent_shrinks[OF sym]
      simp: pot_def Abort_def)

declare loop.simps [simp del]

section \<open>Facts about the string functions\<close>

lemma LastIndex_absent: "ch \<notin> set s \<Longrightarrow> LastIndex s ch = - 1"
  by (induction s) auto


lemma LastIndex_last: "ch \<notin> set p \<Longrightarrow> LastIndex (h @ ch # p) ch = int (length h)"
  by (induction h) (auto simp: Let_def LastIndex_absent)


lemma IndexByte_absent: "ch \<notin> set s \<Longrightarrow> IndexByte s ch = - 1"
  by (induction s) auto

section \<open>Properties of the handler chain\<close>

subsection \<open>The order of invocations\<close>

lemma invoked_append [simp]: "invoked (t1 @ t2) = invoked t1 @ invoked t2"
  by (induction t1 rule: invoked.induct) auto

lemma ord_weaken: "ord lo hs r \<Longrightarrow> lo' \<le> lo \<Longrightarrow> ord lo' hs r"
  by (cases r) (auto simp: ord_def)




lemma ord_Return [simp]: "ord (index c + 1) (handlers c) (out, c, [])"
  by (simp add: ord_def)














lemma after_simps [simp]:
  "fst (after t r) = fst r"
  "fst (snd (after t r)) = fst (snd r)"
  "snd (snd (after t r)) = t @ snd (snd r)"
  by (simp_all add: after_def split: prod.splits)


lemma in_order_index [simp]: "in_order k hs (c\<lparr>index := x\<rparr>) = in_order k hs c"
  by (cases hs) simp_all




lemma run_CallNext:
  "run (CallNext k) c =
     (case Next c of
        (Returns e, c', t) \<Rightarrow> after t (run (k e) c')
      | (Panics, c', t) \<Rightarrow> (Panics, c', t))"
  by (simp add: Next_def)




subsection \<open>\<^verbatim>\<open>Context.Next\<close>\<close>





subsection \<open>\<^verbatim>\<open>Context.Abort\<close>\<close>




section \<open>Properties of the context\<close>

subsection \<open>\<^verbatim>\<open>Context.Reset\<close>\<close>

text \<open>
  \<^verbatim>\<open>Reset\<close> assigns six fields. The route parameters, the handlers and the pointer
  to the framework are not among them.
\<close>

lemma Reset_frame:
  "pnames (Reset c response request) = pnames c \<and>
   pvalues (Reset c response request) = pvalues c \<and>
   handlers (Reset c response request) = handlers c \<and>
   makross (Reset c response request) = makross c"
  by (simp add: Reset_def)

text \<open>
  C6, as stated, fails in its last clause: a reset context still holds data of the
  request before. Here a context was routed to one handler with the route parameter
  \<^verbatim>\<open>id\<close> = \<^verbatim>\<open>7\<close>; after \<^verbatim>\<open>Reset\<close> for the next request the handlers are the same,
  \<^verbatim>\<open>Next\<close> invokes the old handler, and \<^verbatim>\<open>Param("id")\<close> still answers \<^verbatim>\<open>7\<close>.
\<close>

theorem Reset_reinitialises_counterexample:
  "handlers routed = [Emit ''profile'' (Return None)] \<and>
   handlers (Reset routed res0 proxied) = [Emit ''profile'' (Return None)] \<and>
   snd (snd (Next (Reset routed res0 proxied))) = [Invoke 0, Emitted ''profile''] \<and>
   Param routed ''id'' = Some ''7'' \<and>
   Param (Reset routed res0 proxied) ''id'' = Some ''7''"
proof -
  have h: "handlers routed = [Emit ''profile'' (Return None)]"
    "handlers (Reset routed res0 proxied) = [Emit ''profile'' (Return None)]"
    by (simp_all add: routed_def NewContext_def Reset_def)
  have n: "snd (snd (Next (Reset routed res0 proxied))) = [Invoke 0, Emitted ''profile'']"
    by code_simp
  have p: "Param routed ''id'' = Some ''7''" "Param (Reset routed res0 proxied) ''id'' = Some ''7''"
    by (simp_all add: Param_def routed_def NewContext_def Reset_def)
  from h n p show ?thesis by blast
qed

text \<open>
  C6, amended. After \<^verbatim>\<open>c.Reset(response, request)\<close> the request and the response are
  the arguments, the cancellation context is the background context, which is not
  cancelled, the store is \<^verbatim>\<open>nil\<close>, so that \<^verbatim>\<open>Get\<close> returns \<^verbatim>\<open>nil\<close> for every
  key, also for a key that was set before the reset, the cursor is \<open>-1\<close> and the writer
  is the default writer. The handlers and the pointer to the framework are kept as they
  were: \<^verbatim>\<open>NewContext\<close> sets the handlers and then calls \<^verbatim>\<open>Reset\<close>, and the context
  it returns has them.
\<close>

theorem Reset_reinitialises:
  "Request (Reset c response request) = request \<and>
   Response (Reset c response request) = response \<and>
   ktx (Reset c response request) = Background \<and>
   \<not> cancelled (ktx (Reset c response request)) \<and>
   data (Reset c response request) = None \<and>
   (\<forall>k. Get (Reset c response request) k = VNil) \<and>
   (\<forall>k v k'. Get (Reset (Set c k v) response request) k' = VNil) \<and>
   index (Reset c response request) = - 1 \<and>
   writer (Reset c response request) = DefaultDataWriter \<and>
   handlers (Reset c response request) = handlers c \<and>
   makross (Reset c response request) = makross c \<and>
   handlers (NewContext res req hs) = hs"
  by (simp add: Reset_def Get_def cancelled_def NewContext_def)

theorem Reset_reinitialises_witness:
  "Get (Set routed ''user'' (VString ''alice'')) ''user'' = VString ''alice'' \<and>
   Get (Reset (Set routed ''user'' (VString ''alice'')) res0 proxied) ''user'' = VNil \<and>
   Request (Reset (Set routed ''user'' (VString ''alice'')) res0 proxied) = proxied \<and>
   index (Abort routed) = 1 \<and>
   index (Reset (Abort routed) res0 proxied) = - 1 \<and>
   writer (Reset (routed\<lparr>writer := Writer (\<lambda>res d. (None, res))\<rparr>) res0 proxied) = DefaultDataWriter \<and>
   ktx (Reset (routed\<lparr>ktx := WithCancel Background True\<rparr>) res0 proxied) = Background \<and>
   handlers (Reset routed res0 proxied) = handlers routed"
  using Reset_reinitialises[of "Set routed ''user'' (VString ''alice'')" res0 proxied res0 req0 "[]"]
    Reset_reinitialises[of "Abort routed" res0 proxied res0 req0 "[]"]
    Reset_reinitialises[of "routed\<lparr>writer := Writer (\<lambda>res d. (None, res))\<rparr>" res0 proxied res0 req0 "[]"]
    Reset_reinitialises[of "routed\<lparr>ktx := WithCancel Background True\<rparr>" res0 proxied res0 req0 "[]"]
    Reset_reinitialises[of routed res0 proxied res0 req0 "[]"]
  by (simp add: Get_def Set_def Abort_def routed_def NewContext_def Reset_def)

subsection \<open>The output helpers \<^verbatim>\<open>String\<close>, \<^verbatim>\<open>Render\<close> and \<^verbatim>\<open>NoContent\<close>\<close>

lemma status_code_simps [simp]: "status_code [] = StatusOK" "status_code (x # xs) = x"
  by (simp_all add: status_code_def)

lemma index_NoContent: "index (snd (NoContent c status)) = index c"
  by (simp add: NoContent_def)

text \<open>
  C7, as stated, fails. \<^verbatim>\<open>Render\<close> without a registered renderer returns
  \<^verbatim>\<open>ErrRendererNotRegistered\<close> before it touches the response or the cursor: the
  status stays as it was and \<^verbatim>\<open>Abort\<close> is not called. \<^verbatim>\<open>NoContent\<close> has no call
  of \<^verbatim>\<open>Abort\<close> either: the cursor is where it was.
\<close>

theorem output_helpers_counterexample:
  "Render bare ''index'' [404] = (Returns (Some ErrRendererNotRegistered), bare) \<and>
   Status (Response bare) \<noteq> 404 \<and>
   index bare \<noteq> int (length (handlers bare)) \<and>
   index (snd (NoContent bare [204])) \<noteq> int (length (handlers (snd (NoContent bare [204]))))"
  by (simp add: bare_def NewContext_def Reset_def Render_def NoContent_def res0_def)

text \<open>
  C7, amended. The status code of a helper is its first status argument, or 200 when
  there is none. \<^verbatim>\<open>String\<close> sets it on the response, hands the response to the
  writer and calls \<^verbatim>\<open>Abort\<close>, so that the cursor is \<^verbatim>\<open>len(handlers)\<close> when it
  returns; with the default writer the status is still the code afterwards. \<^verbatim>\<open>Render\<close>
  does the same when a renderer is registered and renders the template; when no renderer
  is registered, or the renderer fails, it returns the error and leaves the response and
  the cursor as they were, and it panics when the context has no framework.
  \<^verbatim>\<open>NoContent\<close> sets the status code and returns \<^verbatim>\<open>nil\<close>.
\<close>

theorem output_helpers:
  "status_code [] = 200 \<and> status_code (x # xs) = x \<and>
   (\<exists>res. Status res = status_code status \<and>
      String c s status =
        (fst (DataWriter_Write (writer c) res s),
         Abort (c\<lparr>Response := snd (DataWriter_Write (writer c) res s)\<rparr>))) \<and>
   index (snd (String c s status)) = int (length (handlers c)) \<and>
   handlers (snd (String c s status)) = handlers c \<and>
   (writer c = DefaultDataWriter \<longrightarrow>
      fst (String c s status) = None \<and>
      Status (Response (snd (String c s status))) = status_code status) \<and>
   (makross c = Some m \<and> renderer m = Some rnd \<and> rnd name = Inr buf \<longrightarrow>
      (\<exists>res. Status res = status_code status \<and>
         Render c name status =
           (Returns (fst (DataWriter_Write (writer c) res buf)),
            Abort (c\<lparr>Response := snd (DataWriter_Write (writer c) res buf)\<rparr>))) \<and>
      index (snd (Render c name status)) = int (length (handlers c)) \<and>
      (writer c = DefaultDataWriter \<longrightarrow>
         fst (Render c name status) = Returns None \<and>
         Status (Response (snd (Render c name status))) = status_code status)) \<and>
   (makross c = Some m \<and> renderer m = None \<longrightarrow>
      Render c name status = (Returns (Some ErrRendererNotRegistered), c)) \<and>
   (makross c = Some m \<and> renderer m = Some rnd \<and> rnd name = Inl err \<longrightarrow>
      Render c name status = (Returns (Some err), c)) \<and>
   (makross c = None \<longrightarrow> Render c name status = (Panics, c)) \<and>
   fst (NoContent c status) = None \<and>
   Status (Response (snd (NoContent c status))) = status_code status"
proof -
  let ?plain = "WriteHeader (Header_Set (Response c) HeaderContentType MIMETextPlainCharsetUTF8) (status_code status)"
  let ?html = "WriteHeader (Header_Set (Response c) HeaderContentType MIMETextHTMLCharsetUTF8) (status_code status)"
  have st: "Status ?plain = status_code status" "Status ?html = status_code status"
    by (simp_all add: WriteHeader_def)
  have S: "String c s status =
        (fst (DataWriter_Write (writer c) ?plain s),
         Abort (c\<lparr>Response := snd (DataWriter_Write (writer c) ?plain s)\<rparr>))"
    by (simp add: String_def Let_def Write_def split: prod.splits)
  have R: "Render c name status =
           (Returns (fst (DataWriter_Write (writer c) ?html buf)),
            Abort (c\<lparr>Response := snd (DataWriter_Write (writer c) ?html buf)\<rparr>))"
    if "makross c = Some m" "renderer m = Some rnd" "rnd name = Inr buf"
    using that by (simp add: Render_def Let_def Write_def split: prod.splits)
  have D: "DataWriter_Write DefaultDataWriter res d = (None, res\<lparr>Written := Written res @ d\<rparr>)" for res d
    by simp
  show ?thesis
    apply (intro conjI impI)
    subgoal by (simp add: StatusOK_def)
    subgoal by simp
    subgoal using S st(1) by blast
    subgoal by (simp add: S Abort_def)
    subgoal by (simp add: S Abort_def)
    subgoal by (simp add: S)
    subgoal by (simp add: S Abort_def WriteHeader_def)
    subgoal using R st(2) by blast
    subgoal by (simp add: R Abort_def)
    subgoal by (simp add: R)
    subgoal by (simp add: R Abort_def WriteHeader_def)
    subgoal by (simp add: Render_def)
    subgoal by (simp add: Render_def)
    subgoal by (simp add: Render_def)
    subgoal by (simp add: NoContent_def)
    subgoal by (simp add: NoContent_def WriteHeader_def)
    done
qed

theorem output_helpers_witness:
  "index (snd (String site ''hi'' [201])) = 2 \<and>
   Status (Response (snd (String site ''hi'' [201]))) = 201 \<and>
   Status (Response (snd (String site ''hi'' []))) = 200 \<and>
   fst (Render site ''index'' [202]) = Returns None \<and>
   index (snd (Render site ''index'' [202])) = 2 \<and>
   Status (Response (snd (Render site ''index'' [202]))) = 202 \<and>
   Render site ''other'' [202] = (Returns (Some (ErrOther ''no such template'')), site) \<and>
   Render bare ''index'' [202] = (Returns (Some ErrRendererNotRegistered), bare) \<and>
   Render (NewContext res0 req0 []) ''index'' [] = (Panics, NewContext res0 req0 []) \<and>
   Status (Response (snd (NoContent site [204]))) = 204"
  using output_helpers[of 201 "[]" "[201]" site "''hi''" "\<lparr>renderer = Some page\<rparr>" page "''index''" "''<p>hi</p>''" undefined]
    output_helpers[of 201 "[]" "[]" site "''hi''" "\<lparr>renderer = Some page\<rparr>" page "''index''" "''<p>hi</p>''" undefined]
    output_helpers[of 202 "[]" "[202]" site "''hi''" "\<lparr>renderer = Some page\<rparr>" page "''index''" "''<p>hi</p>''" undefined]
    output_helpers[of 202 "[]" "[202]" site "''hi''" "\<lparr>renderer = Some page\<rparr>" page "''other''" undefined "ErrOther ''no such template''"]
    output_helpers[of 202 "[]" "[202]" bare "''hi''" "\<lparr>renderer = None\<rparr>" page "''index''" undefined undefined]
    output_helpers[of 202 "[]" "[]" "NewContext res0 req0 []" "''hi''" undefined page "''index''" undefined undefined]
    output_helpers[of 202 "[]" "[204]" site "''hi''" "\<lparr>renderer = Some page\<rparr>" page "''index''" "''<p>hi</p>''" undefined]
  by (simp add: site_def bare_def page_def NewContext_def Reset_def)

subsection \<open>\<^verbatim>\<open>Context.RealIP\<close>\<close>

lemma SplitHostPort_plain:
  assumes "CHR '':'' \<notin> set host" "CHR '':'' \<notin> set port"
    and "CHR ''['' \<notin> set host" "CHR ''['' \<notin> set port"
    and "CHR '']'' \<notin> set host" "CHR '']'' \<notin> set port"
  shows "SplitHostPort (host @ CHR '':'' # port) = (host, port, None)"
proof -
  let ?hp = "host @ CHR '':'' # port"
  have i: "LastIndex ?hp CHR '':'' = int (length host)"
    using assms(2) by (rule LastIndex_last)
  have "?hp ! 0 \<in> set ?hp" by (rule nth_mem) simp
  then have h0: "?hp ! 0 \<noteq> CHR ''[''" using assms(3,4) by auto
  have b1: "IndexByte ?hp CHR ''['' = - 1" using assms(3,4) by (intro IndexByte_absent) auto
  have b2: "IndexByte ?hp CHR '']'' = - 1" using assms(5,6) by (intro IndexByte_absent) auto
  have b3: "IndexByte host CHR '':'' = - 1" using assms(1) by (rule IndexByte_absent)
  have n: "nat (int (length host) + 1) = Suc (length host)" by simp
  show ?thesis
    by (simp add: SplitHostPort_def Let_def i h0 b1 b2 b3 n del: IndexByte.simps LastIndex.simps)
qed

lemma SplitHostPort_no_port:
  "CHR '':'' \<notin> set s \<Longrightarrow> SplitHostPort s = ([], [], Some (ErrOther ''missing port in address''))"
  by (simp add: SplitHostPort_def Let_def LastIndex_absent addrErr_def del: LastIndex.simps)

lemma GetClientIP_plain_header:
  "Header_Get (Header req) ''X-Real-IP'' \<noteq> [] \<Longrightarrow>
   CHR '':'' \<notin> set (Header_Get (Header req) ''X-Real-IP'') \<Longrightarrow>
   GetClientIP req = Header_Get (Header req) ''X-Real-IP''"
  by (simp add: GetClientIP_def Let_def LastIndex_absent)

text \<open>
  C10. \<^verbatim>\<open>RealIP\<close> returns the \<^verbatim>\<open>X-Forwarded-For\<close> header when it is not empty;
  else the \<^verbatim>\<open>X-Real-IP\<close> header when it is not empty; else the host that
  \<^verbatim>\<open>net.SplitHostPort\<close> finds in the peer address. A header value is returned as it
  is. When both headers are there, \<^verbatim>\<open>RealIP\<close> answers with \<^verbatim>\<open>X-Forwarded-For\<close>
  and \<^verbatim>\<open>GetClientIP\<close> with \<^verbatim>\<open>X-Real-IP\<close>. For a peer address \<open>host:port\<close> without
  further colons or brackets the host is \<open>host\<close>. Here a header is present when
  \<^verbatim>\<open>Header.Get\<close> returns a non-empty string, which is the test the code makes.
\<close>

theorem RealIP_precedence:
  "(Header_Get (Header (Request c)) HeaderXForwardedFor \<noteq> [] \<longrightarrow>
      RealIP split c = Header_Get (Header (Request c)) HeaderXForwardedFor) \<and>
   (Header_Get (Header (Request c)) HeaderXForwardedFor = [] \<and>
    Header_Get (Header (Request c)) HeaderXRealIP \<noteq> [] \<longrightarrow>
      RealIP split c = Header_Get (Header (Request c)) HeaderXRealIP) \<and>
   (Header_Get (Header (Request c)) HeaderXForwardedFor = [] \<and>
    Header_Get (Header (Request c)) HeaderXRealIP = [] \<longrightarrow>
      RealIP split c = fst (split (RemoteAddr (Request c)))) \<and>
   (Header_Get (Header (Request c)) HeaderXForwardedFor \<noteq> [] \<and>
    Header_Get (Header (Request c)) HeaderXRealIP \<noteq> [] \<and>
    CHR '':'' \<notin> set (Header_Get (Header (Request c)) HeaderXRealIP) \<longrightarrow>
      RealIP split c = Header_Get (Header (Request c)) HeaderXForwardedFor \<and>
      GetClientIP (Request c) = Header_Get (Header (Request c)) HeaderXRealIP) \<and>
   (CHR '':'' \<notin> set host \<union> set port \<and> CHR ''['' \<notin> set host \<union> set port \<and>
    CHR '']'' \<notin> set host \<union> set port \<longrightarrow>
      fst (SplitHostPort (host @ CHR '':'' # port)) = host)"
  by (auto simp: RealIP_def Let_def SplitHostPort_plain GetClientIP_plain_header HeaderXRealIP_def)


theorem RealIP_precedence_witness:
  "RealIP SplitHostPort forwarded = ''10.9.9.9'' \<and>
   GetClientIP (Request forwarded) = ''10.0.0.1'' \<and>
   RealIP SplitHostPort fronted = ''10.0.0.1'' \<and>
   RealIP SplitHostPort bare = ''1.2.3.4'' \<and>
   fst (SplitHostPort (''1.2.3.4'' @ CHR '':'' # ''5678'')) = ''1.2.3.4''"
  using RealIP_precedence[of forwarded SplitHostPort "''1.2.3.4''" "''5678''"]
    RealIP_precedence[of fronted SplitHostPort "''1.2.3.4''" "''5678''"]
    RealIP_precedence[of bare SplitHostPort "''1.2.3.4''" "''5678''"]
  by (simp add: forwarded_def fronted_def bare_def NewContext_def Reset_def relayed_def req0_def
      Header_Get_def HeaderXForwardedFor_def HeaderXRealIP_def)

section \<open>Properties of the body limit\<close>

subsection \<open>\<^verbatim>\<open>limitedReader.Reset\<close>\<close>

text \<open>
  C3. The claim is that \<^verbatim>\<open>Reset\<close> sets the byte counter \<^verbatim>\<open>read\<close> back to zero, so
  that a pooled reader starts each request from zero. The code assigns \<^verbatim>\<open>reader\<close> and
  \<^verbatim>\<open>context\<close> only: the counter keeps its value, and nothing else ever lowers it.
  With a limit of eight bytes, the first five-byte request passes and leaves its reader
  in the pool with a count of five; the same request again is then refused, its five
  bytes being counted on top of the first five.
\<close>

theorem limitedReader_Reset_keeps_read:
  "read (limitedReader_Reset r rd cx) = read r \<and>
   fst (fst (BodyLimit_handler config8 1 post5 (limitedReaderPool config8))) = Returns None \<and>
   map read (idle (snd (BodyLimit_handler config8 1 post5 (limitedReaderPool config8)))) = [5] \<and>
   fst (fst (BodyLimit_handler config8 2 post5
               (snd (BodyLimit_handler config8 1 post5 (limitedReaderPool config8)))))
     = Returns (Some ErrStatusRequestEntityTooLarge)"
proof -
  have a: "read (limitedReader_Reset r rd cx) = read r"
    by (simp add: limitedReader_Reset_def)
  have b: "fst (fst (BodyLimit_handler config8 1 post5 (limitedReaderPool config8))) = Returns None"
    by code_simp
  have c: "map read (idle (snd (BodyLimit_handler config8 1 post5 (limitedReaderPool config8)))) = [5]"
    by code_simp
  have d: "fst (fst (BodyLimit_handler config8 2 post5
               (snd (BodyLimit_handler config8 1 post5 (limitedReaderPool config8)))))
     = Returns (Some ErrStatusRequestEntityTooLarge)"
    by code_simp
  from a b c d show ?thesis by blast
qed

subsection \<open>\<^verbatim>\<open>limitedReader.Read\<close>\<close>

lemma sint_add_count:
  fixes n :: "64 word"
  assumes "0 \<le> sint n" "sint n + int m < 2 ^ 63"
  shows "sint (n + of_nat m) = sint n + int m"
proof -
  have "n + of_nat m = word_of_int (sint n + int m)"
    by simp
  then have "sint (n + of_nat m) = signed_take_bit (LENGTH(64) - 1) (sint n + int m)"
    by (simp only: sint_sbintrunc')
  also have "\<dots> = sint n + int m"
    using assms by (intro signed_take_bit_int_eq_self) simp_all
  finally show ?thesis .
qed

lemma Read_step:
  "Read_body rd len = Some ((bs, e), rd', t) \<Longrightarrow>
   Read (LimitedReader cfg rd n cx) len =
     Some ((bs, if sint (limit cfg) < sint (n + of_nat (length bs))
                then Some ErrStatusRequestEntityTooLarge else e),
           LimitedReader cfg rd' (n + of_nat (length bs)) cx, t)"
  by (simp add: Let_def)

lemma Read_nil: "Read_body rd len = None \<Longrightarrow> Read (LimitedReader cfg rd n cx) len = None"
  by simp

lemma total_Cons [simp]: "total ((bs, e) # rest) = int (length bs) + total rest"
  by (simp add: total_def)

lemma total_Nil [simp]: "total [] = 0"
  by (simp add: total_def)

lemma total_nonneg: "0 \<le> total ress"
  by (induction ress) auto

lemma Read_all_counts:
  "Read_body_all rd lens = Some (ures, rd') \<Longrightarrow> 0 \<le> sint n \<Longrightarrow> sint n + total ures < 2 ^ 63 \<Longrightarrow>
   \<exists>n'. Read_all (LimitedReader cfg rd n cx) lens =
     Some (within_budget (sint (limit cfg)) (sint n) ures, LimitedReader cfg rd' n' cx) \<and>
     sint n' = sint n + total ures"
proof (induction lens arbitrary: rd n ures)
  case Nil
  then show ?case by simp
next
  case (Cons len lens)
  from Cons.prems(1) obtain bs e b1 t rest where
    r1: "Read_body rd len = Some ((bs, e), b1, t)" and
    r2: "Read_body_all b1 lens = Some (rest, rd')" and
    u: "ures = (bs, e) # rest"
    by (auto split: option.splits)
  let ?n1 = "n + of_nat (length bs)"
  have tn: "0 \<le> total rest" by (rule total_nonneg)
  have s1: "sint ?n1 = sint n + int (length bs)"
    using Cons.prems(2,3) tn by (intro sint_add_count) (simp_all add: u)
  have "\<exists>n'. Read_all (LimitedReader cfg b1 ?n1 cx) lens =
     Some (within_budget (sint (limit cfg)) (sint ?n1) rest, LimitedReader cfg rd' n' cx) \<and>
     sint n' = sint ?n1 + total rest"
    using r2 Cons.prems(2,3) by (intro Cons.IH) (simp_all add: s1 u)
  then obtain n' where
    ih: "Read_all (LimitedReader cfg b1 ?n1 cx) lens =
       Some (within_budget (sint (limit cfg)) (sint ?n1) rest, LimitedReader cfg rd' n' cx)"
    and sn: "sint n' = sint ?n1 + total rest"
    by blast
  have "Read_all (LimitedReader cfg rd n cx) (len # lens) =
     Some (within_budget (sint (limit cfg)) (sint n) ures, LimitedReader cfg rd' n' cx)"
    using r1 ih by (simp add: Let_def u s1 del: Read.simps add: Read_step)
  moreover have "sint n' = sint n + total ures"
    using sn s1 by (simp add: u)
  ultimately show ?case by blast
qed

lemma within_budget_fits:
  "count + total ures \<le> L \<Longrightarrow> within_budget L count ures = ures"
proof (induction ures arbitrary: count)
  case Nil
  then show ?case by simp
next
  case (Cons a ures)
  obtain bs e where a: "a = (bs, e)" by (cases a)
  have "0 \<le> total ures" by (rule total_nonneg)
  with Cons.prems show ?case
    by (simp add: a Cons.IH)
qed


lemma within_budget_length [simp]: "length (within_budget L count ures) = length ures"
  by (induction L count ures rule: within_budget.induct) auto

lemma within_budget_nth:
  "k < length ures \<Longrightarrow>
   within_budget L count ures ! k =
     (fst (ures ! k),
      if L < count + total (take (Suc k) ures) then Some ErrStatusRequestEntityTooLarge
      else snd (ures ! k))"
proof (induction L count ures arbitrary: k rule: within_budget.induct)
  case (1 L count)
  then show ?case by simp
next
  case (2 L count bs e rest)
  show ?case
  proof (cases k)
    case 0
    then show ?thesis by simp
  next
    case (Suc j)
    with 2 show ?thesis by (simp add: add.assoc)
  qed
qed

text \<open>
  C4. Each \<^verbatim>\<open>Read\<close> passes on the bytes of the wrapped reader, adds their number to
  the counter and returns the too-large error when the counter is above the limit, and
  the wrapped reader's error otherwise. For a reader whose counter starts at zero and any
  sequence of calls, whatever the buffer lengths and however the wrapped reader cuts its
  answers: the counter ends at the total number of bytes, call \<open>k\<close> returns the bytes
  of the wrapped reader's answer \<open>k\<close>, and its error is the too-large error exactly when
  the bytes of the answers up to and including \<open>k\<close> exceed the limit, and the wrapped
  reader's error otherwise. The total is below \<open>2 ^ 63\<close>, the range of the
  \<^verbatim>\<open>int64\<close> counter.
\<close>

theorem Read_enforces_budget:
  "(Read_body rd len = Some ((bs, e), rd1, t) \<longrightarrow>
      Read (LimitedReader cfg rd n cx) len =
        Some ((bs, if sint (limit cfg) < sint (n + of_nat (length bs))
                   then Some ErrStatusRequestEntityTooLarge else e),
              LimitedReader cfg rd1 (n + of_nat (length bs)) cx, t)) \<and>
   (Read_body_all rd lens = Some (ures, rd') \<and> total ures < 2 ^ 63 \<longrightarrow>
      (\<exists>ress n'. Read_all (LimitedReader cfg rd 0 cx) lens = Some (ress, LimitedReader cfg rd' n' cx) \<and>
         sint n' = total ures \<and> length ress = length ures \<and>
         (\<forall>k<length ures.
            fst (ress ! k) = fst (ures ! k) \<and>
            snd (ress ! k) =
              (if sint (limit cfg) < total (take (Suc k) ures)
               then Some ErrStatusRequestEntityTooLarge else snd (ures ! k)))))"
proof (intro conjI impI)
  assume "Read_body rd len = Some ((bs, e), rd1, t)"
  then show "Read (LimitedReader cfg rd n cx) len =
        Some ((bs, if sint (limit cfg) < sint (n + of_nat (length bs))
                   then Some ErrStatusRequestEntityTooLarge else e),
              LimitedReader cfg rd1 (n + of_nat (length bs)) cx, t)"
    by (rule Read_step)
next
  assume a: "Read_body_all rd lens = Some (ures, rd') \<and> total ures < 2 ^ 63"
  then have "\<exists>n'. Read_all (LimitedReader cfg rd 0 cx) lens =
     Some (within_budget (sint (limit cfg)) (sint (0 :: 64 word)) ures, LimitedReader cfg rd' n' cx) \<and>
     sint n' = sint (0 :: 64 word) + total ures"
    by (intro Read_all_counts) simp_all
  then obtain n' where
    r: "Read_all (LimitedReader cfg rd 0 cx) lens =
          Some (within_budget (sint (limit cfg)) 0 ures, LimitedReader cfg rd' n' cx)"
    and s: "sint n' = total ures"
    by auto
  show "\<exists>ress n'. Read_all (LimitedReader cfg rd 0 cx) lens = Some (ress, LimitedReader cfg rd' n' cx) \<and>
         sint n' = total ures \<and> length ress = length ures \<and>
         (\<forall>k<length ures.
            fst (ress ! k) = fst (ures ! k) \<and>
            snd (ress ! k) =
              (if sint (limit cfg) < total (take (Suc k) ures)
               then Some ErrStatusRequestEntityTooLarge else snd (ures ! k)))"
    using r s by (intro exI[of _ "within_budget (sint (limit cfg)) 0 ures"] exI[of _ n'])
      (simp add: within_budget_nth)
qed

theorem Read_enforces_budget_witness:
  "Read_body_all chunks [4, 8, 8] = Some ([(''abc'', None), (''defgh'', None), (''ij'', None)], Raw Drained) \<and>
   (\<exists>ress n'. Read_all (LimitedReader \<lparr>Limit = ''8'', limit = 8\<rparr> chunks 0 None) [4, 8, 8] =
        Some (ress, LimitedReader \<lparr>Limit = ''8'', limit = 8\<rparr> (Raw Drained) n' None) \<and>
      sint n' = 10 \<and>
      ress ! 0 = (''abc'', None) \<and> ress ! 1 = (''defgh'', None) \<and>
      ress ! 2 = (''ij'', Some ErrStatusRequestEntityTooLarge))"
proof -
  let ?ures = "[(''abc'', None), (''defgh'', None), (''ij'', None :: error option)]"
  have u: "Read_body_all chunks [4, 8, 8] = Some (?ures, Raw Drained)"
    by (simp add: chunks_def)
  have tot: "total ?ures = 10" by simp
  have "Read_body_all chunks [4, 8, 8] = Some (?ures, Raw Drained) \<and> total ?ures < 2 ^ 63"
    using u by simp
  with Read_enforces_budget[of chunks 4 "''abc''" None _ _ "\<lparr>Limit = ''8'', limit = 8\<rparr>" 0 None "[4, 8, 8]" ?ures "Raw Drained"]
  obtain ress n' where
    r: "Read_all (LimitedReader \<lparr>Limit = ''8'', limit = 8\<rparr> chunks 0 None) [4, 8, 8] =
        Some (ress, LimitedReader \<lparr>Limit = ''8'', limit = 8\<rparr> (Raw Drained) n' None)"
    and s: "sint n' = total ?ures"
    and k: "\<forall>k<length ?ures.
            fst (ress ! k) = fst (?ures ! k) \<and>
            snd (ress ! k) =
              (if sint (limit \<lparr>Limit = ''8'', limit = 8 :: 64 word\<rparr>) < total (take (Suc k) ?ures)
               then Some ErrStatusRequestEntityTooLarge else snd (?ures ! k))"
    by blast
  from k have "ress ! 0 = (''abc'', None)"
    by (simp add: prod_eq_iff)
  moreover from k have "ress ! 1 = (''defgh'', None)"
    by (simp add: prod_eq_iff)
  moreover from k have "ress ! 2 = (''ij'', Some ErrStatusRequestEntityTooLarge)"
    by (simp add: prod_eq_iff)
  ultimately show ?thesis using u r s tot by auto
qed



subsection \<open>The handler of \<^verbatim>\<open>BodyLimitWithConfig\<close>\<close>

lemma BodyLimitWithConfig_closure:
  "BodyLimitWithConfig parse cfg = Some (config, pool) \<Longrightarrow>
   Skipper config \<noteq> None \<and> parse (Limit cfg) = Inr (limit config) \<and> idle pool = []"
  by (auto simp: BodyLimitWithConfig_def Let_def DefaultBodyLimitConfig_def limitedReaderPool_def
      split: sum.splits if_splits)

text \<open>
  C5. When the skipper does not skip the request and the declared content length is
  above the limit, the handler returns the too-large error and nothing else happens:
  the context is as it was, so the cursor has not moved and the body has not been read,
  the pool is as it was, and the trace is empty: no reader was taken from the pool, no
  read reached the stream and no handler was invoked.
\<close>

theorem BodyLimit_rejects_declared_length:
  "Skipper config = Some skip \<and> \<not> skip c \<and> sint (limit config) < sint (ContentLength (Request c)) \<longrightarrow>
   BodyLimit_handler config cp c pool = ((Returns (Some ErrStatusRequestEntityTooLarge), c, []), pool)"
  by (simp add: BodyLimit_handler_def Let_def)

theorem BodyLimit_rejects_declared_length_witness:
  "BodyLimit_handler config8 1 post9 (limitedReaderPool config8) =
     ((Returns (Some ErrStatusRequestEntityTooLarge), post9, []), limitedReaderPool config8) \<and>
   snd (snd (fst (BodyLimit_handler config8 1 post5 (limitedReaderPool config8)))) =
     [PoolGet, Invoke 0, UnderlyingRead 5, PoolPut]"
proof -
  have "Skipper config8 = Some DefaultSkipper \<and> \<not> DefaultSkipper post9 \<and>
        sint (limit config8) < sint (ContentLength (Request post9))"
    by (simp add: config8_def DefaultSkipper_def post9_def NewContext_def Reset_def)
  with BodyLimit_rejects_declared_length[of config8 DefaultSkipper post9 1 "limitedReaderPool config8"]
  have "BodyLimit_handler config8 1 post9 (limitedReaderPool config8) =
     ((Returns (Some ErrStatusRequestEntityTooLarge), post9, []), limitedReaderPool config8)"
    by blast
  moreover have "snd (snd (fst (BodyLimit_handler config8 1 post5 (limitedReaderPool config8)))) =
     [PoolGet, Invoke 0, UnderlyingRead 5, PoolPut]"
    by code_simp
  ultimately show ?thesis by blast
qed

section \<open>Properties of the access log\<close>

subsection \<open>\<^verbatim>\<open>GetClientIP\<close>\<close>




subsection \<open>\<^verbatim>\<open>CustomLogger\<close> and \<^verbatim>\<open>Logger\<close>\<close>

text \<open>
  C8. The handler of \<^verbatim>\<open>CustomLogger\<close> returns what \<^verbatim>\<open>Next\<close> returns, \<^verbatim>\<open>nil\<close>
  or the error, and leaves the context as one call of \<^verbatim>\<open>Next\<close> leaves it. When
  \<^verbatim>\<open>Next\<close> returns, with or without an error, the trace is the trace of that one call
  followed by one call of the logging callback, on the request, the response with its
  status and zero bytes written, and the elapsed time; for \<^verbatim>\<open>Logger\<close> that call is
  one call of the log function with the five arguments. When \<^verbatim>\<open>Next\<close> panics the
  callback is not reached.
\<close>

theorem CustomLogger_wraps_Next:
  "fst (CustomLogger loggerFunc startTime endTime c) = fst (Next c) \<and>
   fst (snd (CustomLogger loggerFunc startTime endTime c)) = fst (snd (Next c)) \<and>
   (fst (Next c) = Returns err \<longrightarrow>
      snd (snd (CustomLogger loggerFunc startTime endTime c)) =
        snd (snd (Next c)) @
        loggerFunc (Request (fst (snd (Next c))))
          (LogResponseWriter (Response (fst (snd (Next c)))) (Status (Response (fst (snd (Next c))))) 0)
          (real_of_int (endTime - startTime) / 1000000)) \<and>
   (fst (Next c) = Returns err \<longrightarrow>
      snd (snd (Logger logf startTime endTime c)) =
        snd (snd (Next c)) @
        logf ''[%s] [%.3fms] %s %d %d''
          [AString (GetClientIP (Request (fst (snd (Next c))))),
           AFloat (real_of_int (endTime - startTime) / 1000000),
           AString (Method (Request (fst (snd (Next c)))) @ '' '' @ URL (Request (fst (snd (Next c)))) @ '' '' @
                    Proto (Request (fst (snd (Next c))))),
           AInt (Status (Response (fst (snd (Next c))))), AInt 0]) \<and>
   fst (Logger logf startTime endTime c) = fst (Next c) \<and>
   fst (snd (Logger logf startTime endTime c)) = fst (snd (Next c)) \<and>
   (fst (Next c) = Panics \<longrightarrow>
      snd (snd (CustomLogger loggerFunc startTime endTime c)) = snd (snd (Next c)))"
  by (cases "Next c"; cases "fst (Next c)")
     (auto simp: CustomLogger_def Logger_def Let_def split: prod.splits outcome.splits)


theorem CustomLogger_wraps_Next_witness:
  "fst (Logger printf 1000000 3500000 failing) = Returns (Some (ErrOther ''boom'')) \<and>
   index (fst (snd (Logger printf 1000000 3500000 failing))) = 1 \<and>
   snd (snd (Logger printf 1000000 3500000 failing)) =
     [Invoke 0, Emitted ''a'', Invoke 1,
      Logged ''[%s] [%.3fms] %s %d %d''
        [AString ''1.2.3.4'', AFloat (real_of_int (3500000 - 1000000) / 1000000),
         AString ''GET / HTTP/1.1'', AInt 0, AInt 0]] \<and>
   fst (Logger printf 0 1 post5) = Returns None \<and>
   snd (snd (CustomLogger (\<lambda>req rw elapsed. [Emitted ''logged'']) 0 1 post5)) =
     [Invoke 0, UnderlyingRead 5, Emitted ''logged'']"
proof -
  have n1: "fst (Next failing) = Returns (Some (ErrOther ''boom''))" by code_simp
  have n2: "snd (snd (Next failing)) = [Invoke 0, Emitted ''a'', Invoke 1]" by code_simp
  have n3: "index (fst (snd (Next failing))) = 1" by code_simp
  have n4: "GetClientIP (Request (fst (snd (Next failing)))) = ''1.2.3.4''" by code_simp
  have n5: "Method (Request (fst (snd (Next failing)))) = ''GET''"
    "URL (Request (fst (snd (Next failing)))) = ''/''"
    "Proto (Request (fst (snd (Next failing)))) = ''HTTP/1.1''"
    "Status (Response (fst (snd (Next failing)))) = 0"
    by code_simp+
  have m1: "fst (Next post5) = Returns None" by code_simp
  have m2: "snd (snd (Next post5)) = [Invoke 0, UnderlyingRead 5]" by code_simp
  show ?thesis
    using CustomLogger_wraps_Next[of "\<lambda>req rw elapsed. [Emitted ''logged'']" 1000000 3500000 failing
        "Some (ErrOther ''boom'')" printf]
      CustomLogger_wraps_Next[of "\<lambda>req rw elapsed. [Emitted ''logged'']" 0 1 post5 None printf]
    by (simp add: n1 n2 n3 n4 n5 m1 m2 printf_def)
qed

end
